theory Spec2Isabelle
  imports Main
begin

section \<open>Data model\<close>

text \<open>
  The client holds remotely owned records in a query cache. A \<open>Date\<close> is its millisecond
  timestamp; \<open>null\<close> and \<open>undefined\<close> are \<open>None\<close>. JavaScript arrays are lists, and an
  array is truthy even when empty, so \<open>if (previousData)\<close> tests for \<open>Some\<close>.
\<close>

type_synonym date = int

record action =
  a_id :: string
  a_name :: string
  a_dueDate :: "date option"

record outcome =
  o_id :: string
  o_description :: string
  o_type :: string
  o_dueDate :: "date option"
  o_completedDate :: "date option"
  o_status :: string
  o_createdById :: string
  o_createdAt :: date
  o_updatedAt :: date
  o_goals :: "string list"
  o_projects :: "string list"

text \<open>
  The outcomes listed under a cached project are plain objects. The optimistic writes
  store a six-field projection of an outcome; the success handler of outcome creation
  appends the server's outcome as it is.
\<close>

record slimOutcome =
  s_id :: string
  s_description :: string
  s_dueDate :: "date option"
  s_userId :: "string option"
  s_type :: string
  s_projectId :: string

datatype projectOutcome = Slim slimOutcome | Full outcome

fun po_id :: "projectOutcome \<Rightarrow> string" where
  "po_id (Slim x) = s_id x"
| "po_id (Full x) = o_id x"

record project =
  p_id :: string
  p_name :: string
  p_outcomes :: "projectOutcome list"

datatype queryKey =
    ActionGetAll
  | ActionGetToday
  | ActionGetProjectActions string
  | OutcomeGetMyOutcomes
  | ProjectGetActiveWithDetails
  | ProjectGetAll

record cache =
  actionGetAll :: "action list option"
  actionGetToday :: "action list option"
  actionGetProjectActions :: "(string \<times> action list) list"
  outcomeGetMyOutcomes :: "outcome list option"
  projectGetActiveWithDetails :: "project list option"
  projectGetAll :: "project list option"

datatype autoCloseT = Never | AfterMs nat

record notification =
  n_id :: "string option"
  title :: string
  message :: string
  color :: "string option"
  loading :: "bool option"
  autoClose :: "autoCloseT option"

datatype trpcError = TRPCClientError (message_of: string)

text \<open>A value caught by \<open>catch (error)\<close>: an \<open>Error\<close> object or anything else.\<close>

datatype thrown = ErrorObj string | NonError

datatype 'a response = Resolved 'a | Rejected trpcError

record updateVars =
  v_id :: string
  v_dueDate :: "date option"

datatype projectStatus = ACTIVE | ON_HOLD | COMPLETED | CANCELLED
datatype projectPriority = HIGH | MEDIUM | LOW | NONE

record projectUpdateVars =
  u_id :: string
  u_name :: string
  u_status :: projectStatus
  u_priority :: projectPriority
  u_outcomeIds :: "string list option"

record createOutcomeVars =
  c_description :: string
  c_type :: string

text \<open>
  Everything a handler does besides changing cached data is an event, appended to the
  client's trace in program order: console output, toasts, the calls on the query
  utilities, requests handed to the RPC client, timers, and the callbacks on props.
\<close>

text \<open>
  The second argument of a call of \<open>updateProject.mutate\<close>: none, or the callbacks that the
  success handler of outcome creation passes, which close over the server's outcome.
\<close>

datatype mutateOptions = NoOptions | OutcomeCreated outcome

datatype event =
    ConsoleLog string
  | ConsoleError string
  | NotificationsShow notification
  | NotificationsUpdate notification
  | Cancel queryKey
  | GetData queryKey
  | SetData queryKey
  | Invalidate queryKey
  | ActionUpdateRequest updateVars
  | OutcomeCreateRequest createOutcomeVars
  | ProjectUpdateMutate projectUpdateVars mutateOptions
  | ProjectUpdateRequest projectUpdateVars
  | SetTimeout nat
  | OnSearchChange string

record client =
  store :: cache
  trace :: "event list"

definition emit :: "event \<Rightarrow> client \<Rightarrow> client" where
  "emit e s = s\<lparr>trace := trace s @ [e]\<rparr>"

definition console_log :: "string \<Rightarrow> client \<Rightarrow> client" where
  "console_log m = emit (ConsoleLog m)"

definition console_error :: "string \<Rightarrow> client \<Rightarrow> client" where
  "console_error m = emit (ConsoleError m)"

definition notifications_show :: "notification \<Rightarrow> client \<Rightarrow> client" where
  "notifications_show n = emit (NotificationsShow n)"

definition notifications_update :: "notification \<Rightarrow> client \<Rightarrow> client" where
  "notifications_update n = emit (NotificationsUpdate n)"

definition invalidate :: "queryKey \<Rightarrow> client \<Rightarrow> client" where
  "invalidate q = emit (Invalidate q)"

text \<open>
  \<open>setData\<close> of the query library: the cached value is replaced by the given one; a
  value of \<open>undefined\<close> (an updater that returns \<open>old\<close> when there is none) writes nothing.
\<close>

definition setData_actionGetAll :: "action list option \<Rightarrow> client \<Rightarrow> client" where
  "setData_actionGetAll v s =
     (case v of None \<Rightarrow> s | Some d \<Rightarrow> s\<lparr>store := (store s)\<lparr>actionGetAll := Some d\<rparr>\<rparr>)"

definition setData_outcomeGetMyOutcomes :: "outcome list option \<Rightarrow> client \<Rightarrow> client" where
  "setData_outcomeGetMyOutcomes v s =
     (case v of None \<Rightarrow> s | Some d \<Rightarrow> s\<lparr>store := (store s)\<lparr>outcomeGetMyOutcomes := Some d\<rparr>\<rparr>)"

definition setData_projectGetActiveWithDetails :: "project list option \<Rightarrow> client \<Rightarrow> client" where
  "setData_projectGetActiveWithDetails v s =
     (case v of None \<Rightarrow> s | Some d \<Rightarrow> s\<lparr>store := (store s)\<lparr>projectGetActiveWithDetails := Some d\<rparr>\<rparr>)"

definition setData_projectGetAll :: "project list option \<Rightarrow> client \<Rightarrow> client" where
  "setData_projectGetAll v s =
     (case v of None \<Rightarrow> s | Some d \<Rightarrow> s\<lparr>store := (store s)\<lparr>projectGetAll := Some d\<rparr>\<rparr>)"

section \<open>Strings\<close>

definition digit :: "nat \<Rightarrow> char" where
  "digit n = ''0123456789'' ! (n mod 10)"

function show_nat :: "nat \<Rightarrow> string" where
  "show_nat n = (if n < 10 then [digit n] else show_nat (n div 10) @ [digit n])"
  by pat_completeness auto
termination
  by (relation "measure (\<lambda>n. n)") auto

declare show_nat.simps [simp del]

fun starts_with :: "string \<Rightarrow> string \<Rightarrow> bool" where
  "starts_with s [] = True"
| "starts_with [] (c # cs) = False"
| "starts_with (x # xs) (c # cs) = (x = c \<and> starts_with xs cs)"

text \<open>\<open>String.prototype.includes\<close>: the argument occurs as a contiguous substring.\<close>

fun includes_str :: "string \<Rightarrow> string \<Rightarrow> bool" where
  "includes_str [] sub = (sub = [])"
| "includes_str (x # xs) sub = (starts_with (x # xs) sub \<or> includes_str xs sub)"

text \<open>\<open>a || b\<close> on strings: the empty string is falsy.\<close>

definition or_else :: "string \<Rightarrow> string \<Rightarrow> string" where
  "or_else a b = (if a = [] then b else a)"

definition plural :: "nat \<Rightarrow> string" where
  "plural n = (if n \<noteq> 1 then ''s'' else [])"

section \<open>Actions.tsx: the due-date update mutation\<close>

text \<open>
  The handlers of \<open>bulkUpdateMutation\<close>. Console messages keep the source's text without
  its emoji prefix and without the logged object; the clock readings feed only those
  objects and are left out, so the context carries the snapshot and the action id.
\<close>

record updateCtx =
  previousData :: "action list option"
  actionId :: string

definition set_dueDate :: "string \<Rightarrow> date option \<Rightarrow> action \<Rightarrow> action" where
  "set_dueDate i d a = (if a_id a = i then a\<lparr>a_dueDate := d\<rparr> else a)"

definition bulkUpdateMutation_onMutate :: "updateVars \<Rightarrow> client \<Rightarrow> updateCtx \<times> client" where
  "bulkUpdateMutation_onMutate vars s0 =
     (let s1 = console_log (''[MUTATION DEBUG] onMutate started for action '' @ v_id vars @ '':'') s0;
          s2 = emit (Cancel ActionGetAll) s1;
          s3 = console_log (''[MUTATION DEBUG] Cancelled outgoing refetches for action '' @ v_id vars) s2;
          s4 = emit (GetData ActionGetAll) s3;
          prev = actionGetAll (store s4);
          s5 = console_log (''[MUTATION DEBUG] Current cache state for action '' @ v_id vars @ '':'') s4;
          s6 = (case prev of
                  Some _ \<Rightarrow>
                    (let t1 = emit (SetData ActionGetAll) s5 in
                     case actionGetAll (store t1) of
                       None \<Rightarrow>
                         setData_actionGetAll (Some [])
                           (console_log (''[MUTATION DEBUG] No old cache data for action '' @ v_id vars
                                          @ '', returning empty array'') t1)
                     | Some old \<Rightarrow>
                         setData_actionGetAll (Some (map (set_dueDate (v_id vars) (v_dueDate vars)) old))
                           (console_log (''[MUTATION DEBUG] Optimistic update applied for action ''
                                          @ v_id vars @ '':'') t1))
                | None \<Rightarrow>
                    console_log (''[MUTATION DEBUG] No previous data found in cache for action '' @ v_id vars) s5);
          s7 = console_log (''[MUTATION DEBUG] onMutate completed for action '' @ v_id vars @ '', duration:'') s6
      in (\<lparr>previousData = prev, actionId = v_id vars\<rparr>, s7))"

definition bulkUpdateMutation_onError ::
  "trpcError \<Rightarrow> updateVars \<Rightarrow> updateCtx option \<Rightarrow> client \<Rightarrow> client" where
  "bulkUpdateMutation_onError err vars ctx s0 =
     (let s1 = console_error (''[MUTATION DEBUG] onError for action '' @ v_id vars @ '':'') s0;
          s2 = (case ctx of
                  None \<Rightarrow> s1
                | Some c \<Rightarrow>
                    (case previousData c of
                       None \<Rightarrow> s1
                     | Some d \<Rightarrow>
                         console_log (''[MUTATION DEBUG] Rollback completed for action '' @ v_id vars)
                           (setData_actionGetAll (Some d) (emit (SetData ActionGetAll) s1))))
      in notifications_show
           \<lparr>n_id = None, title = ''Update Failed'',
            message = ''Failed to update action '' @ v_id vars @ '': ''
                        @ or_else (message_of err) ''Unknown error'',
            color = Some ''red'', loading = None, autoClose = None\<rparr> s2)"

definition bulkUpdateMutation_onSettled ::
  "action option \<Rightarrow> trpcError option \<Rightarrow> updateVars \<Rightarrow> updateCtx option \<Rightarrow> client \<Rightarrow> client" where
  "bulkUpdateMutation_onSettled data error vars ctx s0 =
     (let s1 = console_log (''[MUTATION DEBUG] onSettled for action '' @ v_id vars @ '':'') s0;
          s2 = console_log (''[MUTATION DEBUG] Starting invalidation for action '' @ v_id vars) s1;
          s3 = invalidate ActionGetAll s2
      in invalidate ActionGetToday s3)"

text \<open>
  \<open>mutateAsync\<close> of the query library runs one mutation to its end: \<open>onMutate\<close>, the
  request, then \<open>onError\<close> when the request is rejected, then \<open>onSettled\<close>, and only then
  does the promise resolve or reject. The mutation defines no \<open>onSuccess\<close>. The server's
  answer to the request is the parameter \<open>srv\<close>.
\<close>

definition bulkUpdateMutation_mutateAsync ::
  "(updateVars \<Rightarrow> action response) \<Rightarrow> updateVars \<Rightarrow> client \<Rightarrow> action response \<times> client" where
  "bulkUpdateMutation_mutateAsync srv vars s0 =
     (let (ctx, s1) = bulkUpdateMutation_onMutate vars s0;
          s2 = emit (ActionUpdateRequest vars) s1
      in case srv vars of
           Resolved d \<Rightarrow> (Resolved d, bulkUpdateMutation_onSettled (Some d) None vars (Some ctx) s2)
         | Rejected e \<Rightarrow>
             (Rejected e,
              bulkUpdateMutation_onSettled None (Some e) vars (Some ctx)
                (bulkUpdateMutation_onError e vars (Some ctx) s2)))"

section \<open>Actions.tsx: bulk rescheduling\<close>

record mutationResult =
  r_actionId :: string
  r_success :: bool
  r_result :: "action option"
  r_error :: "string option"

text \<open>\<open>error instanceof Error ? error.message : 'Unknown error'\<close>\<close>

definition caught_message :: "thrown \<Rightarrow> string" where
  "caught_message e = (case e of ErrorObj m \<Rightarrow> m | NonError \<Rightarrow> ''Unknown error'')"

text \<open>The test the source writes out twice, in the loop and over the collected results.\<close>

definition is_connection_error :: "string \<Rightarrow> bool" where
  "is_connection_error m =
     (includes_str m ''Server has closed the connection'' \<or> includes_str m ''Connection reset by peer'')"

text \<open>
  One pass through the body of the \<open>for\<close> loop, at index \<open>i < actionIds.length\<close>. The
  first component says whether the body left the loop by \<open>break\<close>. The request with
  number \<open>i\<close> is answered by \<open>srv i\<close>; a rejected \<open>mutateAsync\<close> throws the RPC client's
  error, which is an \<open>Error\<close> object.
\<close>

definition reschedule_iteration ::
  "(nat \<Rightarrow> updateVars \<Rightarrow> action response) \<Rightarrow> date option \<Rightarrow> string list \<Rightarrow> nat \<Rightarrow>
   mutationResult list \<Rightarrow> client \<Rightarrow> bool \<times> mutationResult list \<times> client" where
  "reschedule_iteration srv date actionIds i results s0 =
     (let actionId = actionIds ! i;
          index = i + 1;
          totalCount = length actionIds;
          s1 = console_log (''[BULK DEBUG] Processing mutation '' @ show_nat index @ ''/''
                             @ show_nat totalCount @ '' for action '' @ actionId) s0;
          (r, s2) = bulkUpdateMutation_mutateAsync (srv i) \<lparr>v_id = actionId, v_dueDate = date\<rparr> s1
      in case r of
           Resolved result \<Rightarrow>
             (let s3 = console_log (''[BULK DEBUG] Mutation '' @ show_nat index @ ''/''
                                     @ show_nat totalCount @ '' SUCCESS for action '' @ actionId @ '':'') s2;
                  results' = results @ [\<lparr>r_actionId = actionId, r_success = True,
                                          r_result = Some result, r_error = None\<rparr>];
                  s4 = (if i < length actionIds - 1 then emit (SetTimeout 100) s3 else s3)
              in (False, results', s4))
         | Rejected e \<Rightarrow>
             (let errorMessage = caught_message (ErrorObj (message_of e));
                  s3 = console_error (''[BULK DEBUG] Mutation '' @ show_nat index @ ''/''
                                       @ show_nat totalCount @ '' FAILED for action '' @ actionId @ '':'') s2;
                  results' = results @ [\<lparr>r_actionId = actionId, r_success = False,
                                          r_result = None, r_error = Some errorMessage\<rparr>]
              in if is_connection_error errorMessage
                 then (True, results',
                       console_error ''[BULK DEBUG] Database connection lost - stopping bulk operation'' s3)
                 else (False, results', s3)))"

function reschedule_loop ::
  "(nat \<Rightarrow> updateVars \<Rightarrow> action response) \<Rightarrow> date option \<Rightarrow> string list \<Rightarrow> nat \<Rightarrow>
   mutationResult list \<Rightarrow> client \<Rightarrow> mutationResult list \<times> client" where
  "reschedule_loop srv date actionIds i results s0 =
     (if i < length actionIds then
        (case reschedule_iteration srv date actionIds i results s0 of
           (brk, results', s') \<Rightarrow>
             if brk then (results', s')
             else reschedule_loop srv date actionIds (i + 1) results' s')
      else (results, s0))"
  by pat_completeness auto
termination
  by (relation "measure (\<lambda>(srv, date, actionIds, i, results, s0). length actionIds - i)") auto

declare reschedule_loop.simps [simp del]

text \<open>
  The handler. \<open>projectId\<close> is the component's optional prop, tested for truthiness, so
  the empty string counts as absent; \<open>toDateString\<close> is the method of \<open>Date\<close>. An \<open>Error\<close>
  thrown inside the \<open>try\<close> block is caught by its \<open>catch\<close>, which reports it; the early
  return on an empty list leaves before the closing log line.
\<close>

definition handleOverdueBulkReschedule ::
  "(nat \<Rightarrow> updateVars \<Rightarrow> action response) \<Rightarrow> string option \<Rightarrow> (date \<Rightarrow> string) \<Rightarrow>
   date option \<Rightarrow> string list \<Rightarrow> client \<Rightarrow> client" where
  "handleOverdueBulkReschedule srv projectId toDateString date actionIds s0 =
     (let s1 = console_log ''[BULK DEBUG] handleOverdueBulkReschedule started:'' s0 in
      if length actionIds = 0 then
        console_log ''[BULK DEBUG] No actions to reschedule - exiting early'' s1
      else
        (let totalCount = length actionIds;
             s2 = emit (GetData ActionGetAll) s1;
             s3 = console_log ''[BULK DEBUG] Current cache state for selected actions:'' s2;
             s4 = notifications_show
                    \<lparr>n_id = Some ''bulk-reschedule'', title = ''Rescheduling...'',
                     message = ''Updating '' @ show_nat totalCount @ '' action'' @ plural totalCount @ ''...'',
                     color = None, loading = Some True, autoClose = Some Never\<rparr> s3;
             s5 = console_log (''[BULK DEBUG] Starting SEQUENTIAL mutations to avoid database ''
                                @ ''connection pool exhaustion...'') s4;
             (results, s6) = reschedule_loop srv date actionIds 0 [] s5;
             s7 = console_log ''[BULK DEBUG] All mutations completed:'' s6;
             failedResults = filter (\<lambda>r. \<not> r_success r) results;
             successfulResults = filter r_success results;
             connectionErrors =
               filter (\<lambda>r. case r_error r of None \<Rightarrow> False | Some m \<Rightarrow> is_connection_error m)
                 failedResults;
             s8 =
               (if length failedResults > 0 then
                  (let t1 = console_error ''[BULK DEBUG] Some mutations failed:'' s7;
                       thrownMessage =
                         (if length connectionErrors > 0 then
                            ''Database connection was lost during bulk update. ''
                            @ show_nat (length successfulResults) @ '' of '' @ show_nat totalCount
                            @ '' actions were updated successfully. ''
                            @ ''Please try again for the remaining '' @ show_nat (length failedResults)
                            @ '' actions.''
                          else show_nat (length failedResults) @ '' out of '' @ show_nat totalCount
                               @ '' mutations failed'');
                       t2 = console_error ''[BULK DEBUG] Bulk reschedule failed:'' t1
                   in notifications_update
                        \<lparr>n_id = Some ''bulk-reschedule'', title = ''Bulk Update Failed'',
                         message = ''Failed to update actions. Error: ''
                                     @ caught_message (ErrorObj thrownMessage),
                         color = Some ''red'', loading = Some False, autoClose = Some (AfterMs 5000)\<rparr> t2)
                else
                  (let t1 = emit (GetData ActionGetAll) s7;
                       t2 = console_log ''[BULK DEBUG] Cache state after mutations:'' t1;
                       n = length successfulResults;
                       msg = (case date of
                                Some d \<Rightarrow> ''Successfully rescheduled '' @ show_nat n @ '' action''
                                          @ plural n @ '' to '' @ toDateString d
                              | None \<Rightarrow> ''Successfully removed due date from '' @ show_nat n
                                        @ '' action'' @ plural n);
                       t3 = notifications_update
                              \<lparr>n_id = Some ''bulk-reschedule'',
                               title = (case date of Some d \<Rightarrow> ''Bulk Reschedule Complete''
                                                   | None \<Rightarrow> ''Due Date Removed''),
                               message = msg, color = Some ''green'', loading = Some False,
                               autoClose = Some (AfterMs 3000)\<rparr> t2;
                       t4 = console_log ''[BULK DEBUG] Starting cache invalidation...'' t3;
                       t5 = invalidate ActionGetAll t4;
                       t6 = invalidate ActionGetToday t5;
                       t7 = (case projectId of
                               Some pid \<Rightarrow>
                                 if pid \<noteq> [] then invalidate (ActionGetProjectActions pid) t6 else t6
                             | None \<Rightarrow> t6)
                   in console_log ''[BULK DEBUG] Cache invalidation complete'' t7))
         in console_log ''[BULK DEBUG] handleOverdueBulkReschedule finished, total duration:'' s8))"

section \<open>OutcomeMultiSelect: project outcome assignment and outcome creation\<close>

record props =
  projectId :: string
  projectName :: string
  projectStatus :: projectStatus
  projectPriority :: projectPriority
  currentOutcomes :: "outcome list"

record projectCtx =
  previousActiveProjects :: "project list option"
  previousAllProjects :: "project list option"

record createCtx =
  tempId :: string
  currentOutcomeIds :: "string list"
  tempOutcome :: outcome

text \<open>The object literal that both optimistic writes build from an outcome.\<close>

definition slim :: "string \<Rightarrow> outcome \<Rightarrow> projectOutcome" where
  "slim pid x =
     Slim \<lparr>s_id = o_id x, s_description = o_description x, s_dueDate = o_dueDate x,
           s_userId = None, s_type = o_type x, s_projectId = pid\<rparr>"

text \<open>\<open>p.id === projectId ? { ...p, outcomes: os } : p\<close>\<close>

definition with_outcomes :: "string \<Rightarrow> projectOutcome list \<Rightarrow> project \<Rightarrow> project" where
  "with_outcomes pid os p = (if p_id p = pid then p\<lparr>p_outcomes := os\<rparr> else p)"

text \<open>
  The updater \<open>(old) => { if (!old) return old; return old.map(...) }\<close> that every
  write to a project list uses.
\<close>

definition map_projects ::
  "string \<Rightarrow> projectOutcome list \<Rightarrow> project list option \<Rightarrow> project list option" where
  "map_projects pid os old =
     (case old of None \<Rightarrow> None | Some ps \<Rightarrow> Some (map (with_outcomes pid os) ps))"



definition updateProject_onError :: "projectCtx option \<Rightarrow> client \<Rightarrow> client" where
  "updateProject_onError ctx s0 =
     (case ctx of
        None \<Rightarrow> s0
      | Some c \<Rightarrow>
          (let s1 = (case previousActiveProjects c of
                       None \<Rightarrow> s0
                     | Some d \<Rightarrow>
                         setData_projectGetActiveWithDetails (Some d)
                           (emit (SetData ProjectGetActiveWithDetails) s0))
           in case previousAllProjects c of
                None \<Rightarrow> s1
              | Some d \<Rightarrow> setData_projectGetAll (Some d) (emit (SetData ProjectGetAll) s1)))"





text \<open>
  \<open>createOutcomeMutation\<close>. \<open>now\<close> is the clock reading \<open>Date.now()\<close>, also taken for the
  two \<open>new Date()\<close> of the provisional record.
\<close>

definition createOutcomeMutation_onMutate ::
  "props \<Rightarrow> nat \<Rightarrow> createOutcomeVars \<Rightarrow> client \<Rightarrow> createCtx \<times> client" where
  "createOutcomeMutation_onMutate pr now vars s0 =
     (let tid = ''temp-'' @ show_nat now;
          tmp = \<lparr>o_id = tid, o_description = c_description vars, o_type = ''weekly'',
                 o_dueDate = None, o_completedDate = None, o_status = ''ACTIVE'',
                 o_createdById = [], o_createdAt = int now, o_updatedAt = int now,
                 o_goals = [], o_projects = []\<rparr>;
          s1 = emit (SetData OutcomeGetMyOutcomes) s0;
          s2 = setData_outcomeGetMyOutcomes
                 (case outcomeGetMyOutcomes (store s1) of
                    None \<Rightarrow> Some [tmp]
                  | Some old \<Rightarrow> Some (old @ [tmp])) s1;
          ids = map o_id (currentOutcomes pr);
          newOutcomes = currentOutcomes pr @ [tmp];
          os = map (slim (projectId pr)) newOutcomes;
          s3 = emit (SetData ProjectGetActiveWithDetails) s2;
          s4 = setData_projectGetActiveWithDetails
                 (map_projects (projectId pr) os (projectGetActiveWithDetails (store s3))) s3;
          s5 = emit (SetData ProjectGetAll) s4;
          s6 = setData_projectGetAll (map_projects (projectId pr) os (projectGetAll (store s5))) s5;
          s7 = emit (OnSearchChange []) s6
      in (\<lparr>tempId = tid, currentOutcomeIds = ids, tempOutcome = tmp\<rparr>, s7))"

text \<open>The first argument of the call of \<open>updateProject.mutate\<close> in the success handler.\<close>

definition dependent_vars :: "props \<Rightarrow> createCtx \<Rightarrow> outcome \<Rightarrow> projectUpdateVars" where
  "dependent_vars pr c newOutcome =
     (let outcomeIds = currentOutcomeIds c @ [o_id newOutcome]
      in \<lparr>u_id = projectId pr, u_name = projectName pr, u_status = projectStatus pr,
          u_priority = projectPriority pr, u_outcomeIds = Some outcomeIds\<rparr>)"

text \<open>
  \<open>updateProject.mutate(...)\<close> hands the dependent mutation and its callbacks to the
  library and returns; the handler ends there, so the call is an event that carries both
  arguments. What the call sets in motion is \<open>updateProject_mutate\<close>.
\<close>

definition createOutcomeMutation_onSuccess ::
  "props \<Rightarrow> outcome \<Rightarrow> createCtx option \<Rightarrow> client \<Rightarrow> client" where
  "createOutcomeMutation_onSuccess pr newOutcome ctx s0 =
     (case ctx of
        None \<Rightarrow> s0
      | Some c \<Rightarrow>
          (let s1 = emit (SetData OutcomeGetMyOutcomes) s0;
               s2 = setData_outcomeGetMyOutcomes
                      (case outcomeGetMyOutcomes (store s1) of
                         None \<Rightarrow> Some [newOutcome]
                       | Some old \<Rightarrow>
                           Some (map (\<lambda>x. if o_id x = tempId c then newOutcome else x) old)) s1;
               s3 = emit (GetData ProjectGetActiveWithDetails) s2;
               currentProject =
                 (case projectGetActiveWithDetails (store s3) of
                    None \<Rightarrow> None
                  | Some ps \<Rightarrow> find (\<lambda>p. p_id p = projectId pr) ps);
               projectOutcomes = (case currentProject of None \<Rightarrow> [] | Some p \<Rightarrow> p_outcomes p);
               updatedOutcomes =
                 filter (\<lambda>x. po_id x \<noteq> tempId c) projectOutcomes @ [Full newOutcome];
               s4 = emit (SetData ProjectGetActiveWithDetails) s3;
               s5 = setData_projectGetActiveWithDetails
                      (map_projects (projectId pr) updatedOutcomes
                         (projectGetActiveWithDetails (store s4))) s4;
               s6 = emit (SetData ProjectGetAll) s5;
               s7 = setData_projectGetAll
                      (map_projects (projectId pr) updatedOutcomes (projectGetAll (store s6))) s6
           in emit (ProjectUpdateMutate (dependent_vars pr c newOutcome) (OutcomeCreated newOutcome))
                s7))"

definition createOutcomeMutation_onError :: "trpcError \<Rightarrow> client \<Rightarrow> client" where
  "createOutcomeMutation_onError error s0 =
     (let s1 = invalidate OutcomeGetMyOutcomes s0;
          s2 = invalidate ProjectGetActiveWithDetails s1;
          s3 = invalidate ProjectGetAll s2
      in notifications_show
           \<lparr>n_id = None, title = ''Failed to create outcome'', message = message_of error,
            color = Some ''red'', loading = None, autoClose = None\<rparr> s3)"

text \<open>
  One outcome creation from start to end, in the library's order: \<open>onMutate\<close>, the
  request, then \<open>onSuccess\<close> or \<open>onError\<close>. The mutation defines no \<open>onSettled\<close>.
\<close>

definition createOutcomeMutation_mutate ::
  "props \<Rightarrow> nat \<Rightarrow> (createOutcomeVars \<Rightarrow> outcome response) \<Rightarrow> createOutcomeVars \<Rightarrow>
   client \<Rightarrow> client" where
  "createOutcomeMutation_mutate pr now srv vars s0 =
     (let (ctx, s1) = createOutcomeMutation_onMutate pr now vars s0;
          s2 = emit (OutcomeCreateRequest vars) s1
      in case srv vars of
           Resolved newOutcome \<Rightarrow> createOutcomeMutation_onSuccess pr newOutcome (Some ctx) s2
         | Rejected e \<Rightarrow> createOutcomeMutation_onError e s2)"


section \<open>The error handlers of the other mutations\<close>

text \<open>The token page; the toast's icon is presentation and is left out.\<close>

definition generateToken_onError :: "trpcError \<Rightarrow> client \<Rightarrow> client" where
  "generateToken_onError error s0 =
     notifications_show
       \<lparr>n_id = None, title = ''Error'',
        message = or_else (message_of error) ''Failed to generate API key'',
        color = Some ''red'', loading = None, autoClose = None\<rparr> s0"

definition revokeToken_onError :: "trpcError \<Rightarrow> client \<Rightarrow> client" where
  "revokeToken_onError error s0 =
     notifications_show
       \<lparr>n_id = None, title = ''Error'',
        message = or_else (message_of error) ''Failed to revoke API key'',
        color = Some ''red'', loading = None, autoClose = None\<rparr> s0"

definition bulkDeleteMutation_onError :: "trpcError \<Rightarrow> client \<Rightarrow> client" where
  "bulkDeleteMutation_onError error s0 =
     notifications_show
       \<lparr>n_id = None, title = ''Delete Failed'',
        message = or_else (message_of error) ''Failed to delete overdue actions'',
        color = Some ''red'', loading = None, autoClose = None\<rparr> s0"

section \<open>Reading a trace\<close>

text \<open>The events a run appends to the trace it started with.\<close>

definition events_since :: "client \<Rightarrow> client \<Rightarrow> event list" where
  "events_since s s' = drop (length (trace s)) (trace s')"

fun is_SetData :: "event \<Rightarrow> bool" where
  "is_SetData (SetData q) = True"
| "is_SetData _ = False"

fun is_console :: "event \<Rightarrow> bool" where
  "is_console (ConsoleLog m) = True"
| "is_console (ConsoleError m) = True"
| "is_console _ = False"

fun is_notification :: "event \<Rightarrow> bool" where
  "is_notification (NotificationsShow n) = True"
| "is_notification (NotificationsUpdate n) = True"
| "is_notification _ = False"

fun is_invalidate :: "event \<Rightarrow> bool" where
  "is_invalidate (Invalidate q) = True"
| "is_invalidate _ = False"

fun is_request :: "event \<Rightarrow> bool" where
  "is_request (ActionUpdateRequest v) = True"
| "is_request (OutcomeCreateRequest v) = True"
| "is_request (ProjectUpdateMutate v opts) = True"
| "is_request (ProjectUpdateRequest v) = True"
| "is_request _ = False"

fun is_timeout :: "event \<Rightarrow> bool" where
  "is_timeout (SetTimeout n) = True"
| "is_timeout _ = False"

text \<open>The events that pace a bulk reschedule: requests and timers.\<close>

definition is_request_or_timer :: "event \<Rightarrow> bool" where
  "is_request_or_timer e = (is_request e \<or> is_timeout e)"

fun request_id :: "event \<Rightarrow> string option" where
  "request_id (ActionUpdateRequest v) = Some (v_id v)"
| "request_id _ = None"

text \<open>The action identifiers of the update requests in a trace, in the order sent.\<close>

definition requested :: "event list \<Rightarrow> string list" where
  "requested evs = List.map_filter request_id evs"

text \<open>The outcome identifiers listed under a cached project.\<close>

definition outcome_ids :: "project \<Rightarrow> string list" where
  "outcome_ids p = map po_id (p_outcomes p)"

text \<open>The projects of a cached project list; none when the query holds no data.\<close>

definition projects_of :: "project list option \<Rightarrow> project list" where
  "projects_of c = (case c of None \<Rightarrow> [] | Some ps \<Rightarrow> ps)"

section \<open>Describing a bulk reschedule\<close>

text \<open>The server's answer to the request for the action at index \<open>j\<close>.\<close>

definition answer ::
  "(nat \<Rightarrow> updateVars \<Rightarrow> action response) \<Rightarrow> date option \<Rightarrow> string list \<Rightarrow> nat \<Rightarrow>
   action response" where
  "answer srv date actionIds j = srv j \<lparr>v_id = actionIds ! j, v_dueDate = date\<rparr>"

text \<open>The answer is a failure whose message the loop classifies as a lost connection.\<close>

definition connection_failure :: "action response \<Rightarrow> bool" where
  "connection_failure r =
     (case r of Resolved d \<Rightarrow> False | Rejected e \<Rightarrow> is_connection_error (message_of e))"

definition is_resolved :: "action response \<Rightarrow> bool" where
  "is_resolved r = (case r of Resolved d \<Rightarrow> True | Rejected e \<Rightarrow> False)"

text \<open>
  What one pass of the loop contributes to the requests and timers of a run: the request
  for the action at index \<open>j\<close>, and the timer of 100 ms when the request succeeded and
  the action is not the last.
\<close>

definition schedule ::
  "(nat \<Rightarrow> updateVars \<Rightarrow> action response) \<Rightarrow> date option \<Rightarrow> string list \<Rightarrow> nat \<Rightarrow>
   event list" where
  "schedule srv date actionIds j =
     ActionUpdateRequest \<lparr>v_id = actionIds ! j, v_dueDate = date\<rparr>
     # (if is_resolved (answer srv date actionIds j) \<and> j < length actionIds - 1
        then [SetTimeout 100] else [])"

text \<open>
  The index at which a loop over \<open>n\<close> actions that starts at \<open>i\<close> ends: one past the first
  index from \<open>i\<close> on that satisfies \<open>conn\<close>, or the end of the list.
\<close>

function stop_index :: "(nat \<Rightarrow> bool) \<Rightarrow> nat \<Rightarrow> nat \<Rightarrow> nat" where
  "stop_index conn n i =
     (if i < n then (if conn i then i + 1 else stop_index conn n (i + 1)) else i)"
  by pat_completeness auto
termination
  by (relation "measure (\<lambda>(conn, n, i). n - i)") auto

declare stop_index.simps [simp del]


text \<open>The outcomes of a cached outcome list; none when the query holds no data.\<close>

definition outcomes_of :: "outcome list option \<Rightarrow> outcome list" where
  "outcomes_of c = (case c of None \<Rightarrow> [] | Some xs \<Rightarrow> xs)"

section \<open>Sample data\<close>

definition act1 :: action where
  "act1 = \<lparr>a_id = ''a1'', a_name = ''Pay rent'', a_dueDate = Some 5\<rparr>"

definition act2 :: action where
  "act2 = \<lparr>a_id = ''a2'', a_name = ''Call bank'', a_dueDate = None\<rparr>"

definition out1 :: outcome where
  "out1 = \<lparr>o_id = ''o1'', o_description = ''Move house'', o_type = ''weekly'', o_dueDate = None,
           o_completedDate = None, o_status = ''ACTIVE'', o_createdById = ''u1'', o_createdAt = 1,
           o_updatedAt = 1, o_goals = [], o_projects = []\<rparr>"

definition out9 :: outcome where
  "out9 = \<lparr>o_id = ''o9'', o_description = ''Paint'', o_type = ''weekly'', o_dueDate = None,
           o_completedDate = None, o_status = ''ACTIVE'', o_createdById = ''u1'', o_createdAt = 7,
           o_updatedAt = 7, o_goals = [], o_projects = []\<rparr>"

definition proj1 :: project where
  "proj1 = \<lparr>p_id = ''p1'', p_name = ''Home'', p_outcomes = [slim ''p1'' out1]\<rparr>"

definition proj2 :: project where
  "proj2 = \<lparr>p_id = ''p2'', p_name = ''Work'', p_outcomes = []\<rparr>"

definition props1 :: props where
  "props1 = \<lparr>projectId = ''p1'', projectName = ''Home'', projectStatus = ACTIVE,
             projectPriority = HIGH, currentOutcomes = [out1]\<rparr>"

text \<open>A client that has fetched nothing yet.\<close>

definition client0 :: client where
  "client0 =
     \<lparr>store = \<lparr>actionGetAll = None, actionGetToday = None, actionGetProjectActions = [],
                outcomeGetMyOutcomes = None, projectGetActiveWithDetails = None,
                projectGetAll = None\<rparr>,
      trace = []\<rparr>"

text \<open>A client that shows the active projects and has not fetched the list of all projects.\<close>

definition client1 :: client where
  "client1 =
     \<lparr>store = \<lparr>actionGetAll = Some [act1, act2], actionGetToday = Some [act1],
                actionGetProjectActions = [], outcomeGetMyOutcomes = Some [out1],
                projectGetActiveWithDetails = Some [proj1, proj2], projectGetAll = None\<rparr>,
      trace = []\<rparr>"

text \<open>The same client once the list of all projects is there too.\<close>

definition client2 :: client where
  "client2 = client1\<lparr>store := (store client1)\<lparr>projectGetAll := Some [proj2, proj1]\<rparr>\<rparr>"

definition vars_paint :: createOutcomeVars where
  "vars_paint = \<lparr>c_description = ''Paint'', c_type = ''weekly''\<rparr>"

text \<open>The provisional record that the creation of ``Paint'' builds at clock reading 42.\<close>

definition tmp42 :: outcome where
  "tmp42 = \<lparr>o_id = ''temp-42'', o_description = ''Paint'', o_type = ''weekly'',
            o_dueDate = None, o_completedDate = None, o_status = ''ACTIVE'',
            o_createdById = [], o_createdAt = 42, o_updatedAt = 42,
            o_goals = [], o_projects = []\<rparr>"


definition proj1_tmp :: project where
  "proj1_tmp = proj1\<lparr>p_outcomes := [slim ''p1'' out1, slim ''p1'' tmp42]\<rparr>"

text \<open>A context that holds snapshots of both project lists.\<close>

definition pctx2 :: projectCtx where
  "pctx2 = \<lparr>previousActiveProjects = Some [proj1, proj2], previousAllProjects = Some [proj2, proj1]\<rparr>"

text \<open>A server that rejects the creation of an outcome.\<close>

definition srv_reject :: "createOutcomeVars \<Rightarrow> outcome response" where
  "srv_reject v = Rejected (TRPCClientError ''boom'')"



text \<open>A server that accepts every update.\<close>

definition srv_ok :: "nat \<Rightarrow> updateVars \<Rightarrow> action response" where
  "srv_ok k v = Resolved \<lparr>a_id = v_id v, a_name = ''Pay rent'', a_dueDate = v_dueDate v\<rparr>"

text \<open>A server that rejects the first update for a reason other than a lost connection.\<close>

definition srv_fail_first :: "nat \<Rightarrow> updateVars \<Rightarrow> action response" where
  "srv_fail_first k v =
     (if k = 0 then Rejected (TRPCClientError ''boom'') else srv_ok k v)"

text \<open>A server that rejects the first update and loses the connection on the second.\<close>

definition srv_lost :: "nat \<Rightarrow> updateVars \<Rightarrow> action response" where
  "srv_lost k v =
     (if k = 0 then Rejected (TRPCClientError ''boom'')
      else if k = 1 then Rejected (TRPCClientError ''read ECONNRESET: Connection reset by peer'')
      else srv_ok k v)"

definition toDateString0 :: "date \<Rightarrow> string" where
  "toDateString0 d = ''Mon Nov 02 2026''"

section \<open>Auxiliary facts\<close>

lemmas prim_defs = emit_def console_log_def console_error_def notifications_show_def
  notifications_update_def invalidate_def setData_actionGetAll_def setData_outcomeGetMyOutcomes_def
  setData_projectGetActiveWithDetails_def setData_projectGetAll_def

lemmas sample_defs = act1_def act2_def out1_def out9_def proj1_def proj2_def props1_def
  client0_def client1_def client2_def

lemma starts_with_append: "starts_with (ys @ zs) ys"
  by (induction ys) auto

lemma includes_str_empty: "includes_str s []"
  by (cases s) auto

lemma includes_str_suffix: "includes_str (ys @ zs) ys"
  by (cases "ys @ zs")
     (auto simp: includes_str_empty starts_with_append simp del: starts_with.simps dest: sym)

lemma includes_str_prepend: "includes_str w ys \<Longrightarrow> includes_str (xs @ w) ys"
  by (induction xs) auto

lemma includes_or_else: "includes_str (or_else m d) m"
  using includes_str_suffix [of m "[]"] by (simp add: or_else_def includes_str_empty)

lemma restore_actionGetAll: "actionGetAll c = Some d \<Longrightarrow> c\<lparr>actionGetAll := Some d\<rparr> = c"
  by (cases c) simp

text \<open>
  A failed due-date update leaves the cached data as it found them: either nothing was
  written, or the snapshot of the action list is written back.
\<close>

lemma bulkUpdate_rollback_store:
  "store (bulkUpdateMutation_onError err vars (Some (fst (bulkUpdateMutation_onMutate vars s)))
            (emit (ActionUpdateRequest vars) (snd (bulkUpdateMutation_onMutate vars s)))) = store s"
  by (cases "actionGetAll (store s)")
     (simp_all add: bulkUpdateMutation_onMutate_def bulkUpdateMutation_onError_def prim_defs
        Let_def restore_actionGetAll)

lemma updateProject_onError_store:
  "store (updateProject_onError (Some c) t) =
     (store t)\<lparr>projectGetActiveWithDetails :=
                  (case previousActiveProjects c of
                     None \<Rightarrow> projectGetActiveWithDetails (store t)
                   | Some d \<Rightarrow> Some d),
                projectGetAll :=
                  (case previousAllProjects c of
                     None \<Rightarrow> projectGetAll (store t)
                   | Some d \<Rightarrow> Some d)\<rparr>"
  by (cases "previousActiveProjects c"; cases "previousAllProjects c")
     (simp_all add: updateProject_onError_def prim_defs Let_def)

text \<open>What each error handler appends to the trace.\<close>

lemma bulk_onError_events:
  "events_since s (bulkUpdateMutation_onError err vars ctx s) =
     ConsoleError (''[MUTATION DEBUG] onError for action '' @ v_id vars @ '':'')
     # (case ctx of None \<Rightarrow> [] | Some c \<Rightarrow>
          (case previousData c of None \<Rightarrow> []
           | Some d \<Rightarrow> [SetData ActionGetAll,
                        ConsoleLog (''[MUTATION DEBUG] Rollback completed for action '' @ v_id vars)]))
     @ [NotificationsShow
          \<lparr>n_id = None, title = ''Update Failed'',
           message = ''Failed to update action '' @ v_id vars @ '': ''
                       @ or_else (message_of err) ''Unknown error'',
           color = Some ''red'', loading = None, autoClose = None\<rparr>]"
  by (simp add: bulkUpdateMutation_onError_def prim_defs Let_def events_since_def
      split: option.splits)

lemma updateProject_onError_events:
  "filter (\<lambda>e. is_console e \<or> is_notification e) (events_since s (updateProject_onError ctx s)) = []"
  by (simp add: updateProject_onError_def prim_defs Let_def events_since_def
      split: option.splits)

lemma createOutcome_onError_result:
  "createOutcomeMutation_onError err s =
     s\<lparr>trace := trace s @
        [Invalidate OutcomeGetMyOutcomes, Invalidate ProjectGetActiveWithDetails,
         Invalidate ProjectGetAll,
         NotificationsShow
           \<lparr>n_id = None, title = ''Failed to create outcome'', message = message_of err,
            color = Some ''red'', loading = None, autoClose = None\<rparr>]\<rparr>"
  by (simp add: createOutcomeMutation_onError_def prim_defs Let_def)

section \<open>The empty list and the empty cache\<close>

text \<open>
  C9. Called with an empty list of action identifiers, the bulk reschedule handler
  returns at once: it writes two console lines and nothing else, so it sends no request,
  calls no \<open>setData\<close>, shows or updates no notification, and leaves the cached data as
  they were.
\<close>

theorem handleOverdueBulkReschedule_empty:
  "handleOverdueBulkReschedule srv pid toDateString date [] s =
     s\<lparr>trace := trace s @
         [ConsoleLog ''[BULK DEBUG] handleOverdueBulkReschedule started:'',
          ConsoleLog ''[BULK DEBUG] No actions to reschedule - exiting early'']\<rparr>"
  by (simp add: handleOverdueBulkReschedule_def console_log_def emit_def)

text \<open>
  C10. When the cache of the full action list holds no data as the due-date update
  starts, \<open>onMutate\<close> takes the snapshot \<open>undefined\<close>, calls no \<open>setData\<close> and leaves the
  cached data as they are; when the request then fails, \<open>onError\<close> calls no \<open>setData\<close>
  either, and the cached data are still those the mutation found.
\<close>

theorem bulkUpdate_no_data_untouched:
  assumes "actionGetAll (store s) = None"
  shows "store (snd (bulkUpdateMutation_onMutate vars s)) = store s
       \<and> filter is_SetData (events_since s (snd (bulkUpdateMutation_onMutate vars s))) = []
       \<and> previousData (fst (bulkUpdateMutation_onMutate vars s)) = None
       \<and> store (bulkUpdateMutation_onError err vars (Some (fst (bulkUpdateMutation_onMutate vars s)))
                  (emit (ActionUpdateRequest vars) (snd (bulkUpdateMutation_onMutate vars s)))) = store s
       \<and> filter is_SetData
            (events_since s
               (bulkUpdateMutation_onError err vars (Some (fst (bulkUpdateMutation_onMutate vars s)))
                  (emit (ActionUpdateRequest vars) (snd (bulkUpdateMutation_onMutate vars s))))) = []"
  using assms
  by (simp add: bulkUpdateMutation_onMutate_def bulkUpdateMutation_onError_def prim_defs Let_def
        events_since_def)

text \<open>C10 at a client that has fetched nothing: a failed update of \<open>a1\<close> changes no cached data.\<close>

theorem bulkUpdate_no_data_untouched_witness:
  "actionGetAll (store client0) = None
   \<and> store (bulkUpdateMutation_onError (TRPCClientError ''boom'') \<lparr>v_id = ''a1'', v_dueDate = Some 9\<rparr>
              (Some (fst (bulkUpdateMutation_onMutate \<lparr>v_id = ''a1'', v_dueDate = Some 9\<rparr> client0)))
              (emit (ActionUpdateRequest \<lparr>v_id = ''a1'', v_dueDate = Some 9\<rparr>)
                 (snd (bulkUpdateMutation_onMutate \<lparr>v_id = ''a1'', v_dueDate = Some 9\<rparr> client0))))
     = store client0"
  using bulkUpdate_no_data_untouched
          [of client0 "\<lparr>v_id = ''a1'', v_dueDate = Some 9\<rparr>" "TRPCClientError ''boom''"]
  by (simp add: client0_def)

section \<open>Failure: rollback and notification\<close>

text \<open>
  C1, as the claim states it, fails. The creation of ``Paint'' for project \<open>p1\<close> is
  rejected by the server; the user's outcome list in the cache then still holds the
  provisional record and differs from the list before the mutation. And the error
  handler of project outcome assignment, given a context with both snapshots, shows no
  notification.
\<close>

theorem createOutcome_failure_keeps_provisional:
  "outcomeGetMyOutcomes (store (createOutcomeMutation_mutate props1 42 srv_reject vars_paint client1))
   \<noteq> outcomeGetMyOutcomes (store client1)
   \<and> filter is_notification (events_since client2 (updateProject_onError (Some pctx2) client2)) = []"
  by (simp add: createOutcomeMutation_mutate_def createOutcomeMutation_onMutate_def
        createOutcomeMutation_onError_def updateProject_onError_def prim_defs Let_def sample_defs
        map_projects_def srv_reject_def vars_paint_def pctx2_def events_since_def)

text \<open>
  C1, amended. A failed due-date update leaves the cached data exactly as they were
  before its optimistic write and shows the toast ``Update Failed''. The error handler of
  project outcome assignment writes back each project-list snapshot that its context
  holds, writes nothing when it gets no context, and shows no notification. The error
  handler of outcome creation writes no cached data, so the provisional record stays; it
  invalidates the outcome list and the two project lists and shows the toast ``Failed to
  create outcome''.
\<close>

theorem failed_mutation_cache_and_notice:
  "store (bulkUpdateMutation_onError err vars (Some (fst (bulkUpdateMutation_onMutate vars s)))
            (emit (ActionUpdateRequest vars) (snd (bulkUpdateMutation_onMutate vars s)))) = store s
   \<and> filter is_notification (events_since t (bulkUpdateMutation_onError err vars ctx t)) =
       [NotificationsShow
          \<lparr>n_id = None, title = ''Update Failed'',
           message = ''Failed to update action '' @ v_id vars @ '': ''
                       @ or_else (message_of err) ''Unknown error'',
           color = Some ''red'', loading = None, autoClose = None\<rparr>]
   \<and> store (updateProject_onError (Some c) t) =
       (store t)\<lparr>projectGetActiveWithDetails :=
                    (case previousActiveProjects c of
                       None \<Rightarrow> projectGetActiveWithDetails (store t)
                     | Some d \<Rightarrow> Some d),
                  projectGetAll :=
                    (case previousAllProjects c of
                       None \<Rightarrow> projectGetAll (store t)
                     | Some d \<Rightarrow> Some d)\<rparr>
   \<and> store (updateProject_onError None t) = store t
   \<and> filter is_notification (events_since t (updateProject_onError pctx t)) = []
   \<and> store (createOutcomeMutation_onError err t) = store t
   \<and> events_since t (createOutcomeMutation_onError err t) =
       [Invalidate OutcomeGetMyOutcomes, Invalidate ProjectGetActiveWithDetails,
        Invalidate ProjectGetAll,
        NotificationsShow
          \<lparr>n_id = None, title = ''Failed to create outcome'', message = message_of err,
           color = Some ''red'', loading = None, autoClose = None\<rparr>]"
proof (intro conjI)
  show "filter is_notification (events_since t (updateProject_onError pctx t)) = []"
    using updateProject_onError_events [of t pctx] by (simp add: filter_empty_conv)
  show "filter is_notification (events_since t (bulkUpdateMutation_onError err vars ctx t)) =
       [NotificationsShow
          \<lparr>n_id = None, title = ''Update Failed'',
           message = ''Failed to update action '' @ v_id vars @ '': ''
                       @ or_else (message_of err) ''Unknown error'',
           color = Some ''red'', loading = None, autoClose = None\<rparr>]"
    by (simp add: bulk_onError_events split: option.splits)
  show "store (updateProject_onError None t) = store t"
    by (simp add: updateProject_onError_def)
  show "store (createOutcomeMutation_onError err t) = store t"
    by (simp add: createOutcome_onError_result)
  show "events_since t (createOutcomeMutation_onError err t) =
       [Invalidate OutcomeGetMyOutcomes, Invalidate ProjectGetActiveWithDetails,
        Invalidate ProjectGetAll,
        NotificationsShow
          \<lparr>n_id = None, title = ''Failed to create outcome'', message = message_of err,
           color = Some ''red'', loading = None, autoClose = None\<rparr>]"
    by (simp add: createOutcome_onError_result events_since_def)
qed (rule bulkUpdate_rollback_store, rule updateProject_onError_store)

text \<open>
  The amended C1 at a loaded cache: the optimistic write moves \<open>a1\<close> to day 9, and the
  failed update puts the cached data back.
\<close>

theorem failed_mutation_cache_and_notice_witness:
  "store (bulkUpdateMutation_onError (TRPCClientError ''boom'') \<lparr>v_id = ''a1'', v_dueDate = Some 9\<rparr>
            (Some (fst (bulkUpdateMutation_onMutate \<lparr>v_id = ''a1'', v_dueDate = Some 9\<rparr> client1)))
            (emit (ActionUpdateRequest \<lparr>v_id = ''a1'', v_dueDate = Some 9\<rparr>)
               (snd (bulkUpdateMutation_onMutate \<lparr>v_id = ''a1'', v_dueDate = Some 9\<rparr> client1))))
     = store client1
   \<and> actionGetAll (store (snd (bulkUpdateMutation_onMutate \<lparr>v_id = ''a1'', v_dueDate = Some 9\<rparr> client1)))
     = Some [act1\<lparr>a_dueDate := Some 9\<rparr>, act2]"
  using failed_mutation_cache_and_notice
          [where err = "TRPCClientError ''boom''" and vars = "\<lparr>v_id = ''a1'', v_dueDate = Some 9\<rparr>"
             and s = client1, THEN conjunct1]
  by (simp add: bulkUpdateMutation_onMutate_def prim_defs Let_def sample_defs set_dueDate_def)

section \<open>What the snapshot of the due-date update covers\<close>

text \<open>
  C7, as the claim states it, fails. The settle handler invalidates the today view, and
  \<open>onMutate\<close> never reads it: the snapshot is the same whatever the today view holds.
\<close>

theorem snapshot_misses_today_view:
  "Invalidate ActionGetToday \<in> set (events_since client1
      (bulkUpdateMutation_onSettled None (Some (TRPCClientError ''boom''))
         \<lparr>v_id = ''a1'', v_dueDate = Some 9\<rparr> None client1))
   \<and> GetData ActionGetToday \<notin> set (events_since client1
        (snd (bulkUpdateMutation_onMutate \<lparr>v_id = ''a1'', v_dueDate = Some 9\<rparr> client1)))
   \<and> fst (bulkUpdateMutation_onMutate \<lparr>v_id = ''a1'', v_dueDate = Some 9\<rparr>
            (client1\<lparr>store := (store client1)\<lparr>actionGetToday := None\<rparr>\<rparr>))
     = fst (bulkUpdateMutation_onMutate \<lparr>v_id = ''a1'', v_dueDate = Some 9\<rparr> client1)"
  by (simp add: bulkUpdateMutation_onMutate_def bulkUpdateMutation_onSettled_def prim_defs Let_def
        sample_defs events_since_def)

text \<open>
  C7, amended. The snapshot of the due-date update is the cached full action list, which
  is the only query the optimistic write changes: \<open>setData\<close> is called on it alone, every
  other cached query keeps its data, and the rollback on failure restores the cached data
  as a whole. The settle handler invalidates the full action list and the today view; the
  today view and the project action list are neither written nor part of the snapshot.
\<close>

theorem snapshot_covers_written_query:
  "previousData (fst (bulkUpdateMutation_onMutate vars s)) = actionGetAll (store s)
   \<and> filter is_SetData (events_since s (snd (bulkUpdateMutation_onMutate vars s))) =
       (case actionGetAll (store s) of None \<Rightarrow> [] | Some d \<Rightarrow> [SetData ActionGetAll])
   \<and> store (snd (bulkUpdateMutation_onMutate vars s)) =
       (case actionGetAll (store s) of
          None \<Rightarrow> store s
        | Some d \<Rightarrow> (store s)\<lparr>actionGetAll := Some (map (set_dueDate (v_id vars) (v_dueDate vars)) d)\<rparr>)
   \<and> store (bulkUpdateMutation_onError err vars (Some (fst (bulkUpdateMutation_onMutate vars s)))
              (emit (ActionUpdateRequest vars) (snd (bulkUpdateMutation_onMutate vars s)))) = store s
   \<and> filter is_invalidate (events_since t (bulkUpdateMutation_onSettled data error vars ctx t)) =
       [Invalidate ActionGetAll, Invalidate ActionGetToday]"
proof (intro conjI)
  show "previousData (fst (bulkUpdateMutation_onMutate vars s)) = actionGetAll (store s)"
    by (simp add: bulkUpdateMutation_onMutate_def prim_defs Let_def)
  show "filter is_SetData (events_since s (snd (bulkUpdateMutation_onMutate vars s))) =
       (case actionGetAll (store s) of None \<Rightarrow> [] | Some d \<Rightarrow> [SetData ActionGetAll])"
    by (cases "actionGetAll (store s)")
       (simp_all add: bulkUpdateMutation_onMutate_def prim_defs Let_def events_since_def)
  show "store (snd (bulkUpdateMutation_onMutate vars s)) =
       (case actionGetAll (store s) of
          None \<Rightarrow> store s
        | Some d \<Rightarrow> (store s)\<lparr>actionGetAll := Some (map (set_dueDate (v_id vars) (v_dueDate vars)) d)\<rparr>)"
    by (cases "actionGetAll (store s)")
       (simp_all add: bulkUpdateMutation_onMutate_def prim_defs Let_def)
  show "filter is_invalidate (events_since t (bulkUpdateMutation_onSettled data error vars ctx t)) =
       [Invalidate ActionGetAll, Invalidate ActionGetToday]"
    by (simp add: bulkUpdateMutation_onSettled_def prim_defs Let_def events_since_def)
qed (rule bulkUpdate_rollback_store)

text \<open>The amended C7 at a loaded cache: the snapshot is the action list as fetched.\<close>

theorem snapshot_covers_written_query_witness:
  "previousData (fst (bulkUpdateMutation_onMutate \<lparr>v_id = ''a2'', v_dueDate = Some 3\<rparr> client1))
     = Some [act1, act2]
   \<and> actionGetToday (store (snd (bulkUpdateMutation_onMutate \<lparr>v_id = ''a2'', v_dueDate = Some 3\<rparr> client1)))
     = Some [act1]"
  using snapshot_covers_written_query [of "\<lparr>v_id = ''a2'', v_dueDate = Some 3\<rparr>" client1]
  by (simp add: client1_def)

section \<open>How failures are reported\<close>

text \<open>
  C8, as the claim states it, fails. The error handler of outcome creation writes nothing
  to the console, and the error handler of project outcome assignment shows no toast.
\<close>

theorem createOutcome_error_not_logged:
  "filter is_console (trace (createOutcomeMutation_onError (TRPCClientError ''boom'') client0)) = []
   \<and> filter is_notification (trace (updateProject_onError None client0)) = []"
  by (simp add: createOutcomeMutation_onError_def updateProject_onError_def prim_defs Let_def
        sample_defs)

text \<open>
  C8, amended. Every mutation has an error handler of its own. That of the due-date
  update logs to the console and shows a toast whose message contains the server's error
  message. Those of outcome creation, token generation, token revocation and bulk
  deletion show a toast whose message contains the server's error message and write
  nothing to the console. That of project outcome assignment neither logs nor notifies.
\<close>

theorem error_handlers_report:
  "ConsoleError (''[MUTATION DEBUG] onError for action '' @ v_id vars @ '':'')
     \<in> set (events_since s (bulkUpdateMutation_onError err vars ctx s))
   \<and> (\<exists>n. NotificationsShow n \<in> set (events_since s (bulkUpdateMutation_onError err vars ctx s))
          \<and> includes_str (message n) (message_of err))
   \<and> filter is_console (events_since s (createOutcomeMutation_onError err s)) = []
   \<and> (\<exists>n. NotificationsShow n \<in> set (events_since s (createOutcomeMutation_onError err s))
          \<and> message n = message_of err)
   \<and> (\<exists>n. events_since s (generateToken_onError err s) = [NotificationsShow n]
          \<and> includes_str (message n) (message_of err))
   \<and> (\<exists>n. events_since s (revokeToken_onError err s) = [NotificationsShow n]
          \<and> includes_str (message n) (message_of err))
   \<and> (\<exists>n. events_since s (bulkDeleteMutation_onError err s) = [NotificationsShow n]
          \<and> includes_str (message n) (message_of err))
   \<and> filter (\<lambda>e. is_console e \<or> is_notification e) (events_since s (updateProject_onError pctx s)) = []"
proof -
  have m: "includes_str (''Failed to update action '' @ v_id vars @ '': ''
                       @ or_else (message_of err) ''Unknown error'') (message_of err)"
    using includes_str_prepend
            [OF includes_or_else, of "''Failed to update action '' @ v_id vars @ '': ''"]
    by simp
  have 1: "\<exists>n. NotificationsShow n \<in> set (events_since s (bulkUpdateMutation_onError err vars ctx s))
          \<and> includes_str (message n) (message_of err)"
    unfolding bulk_onError_events using m
    by (intro exI [of _ "\<lparr>n_id = None, title = ''Update Failed'',
           message = ''Failed to update action '' @ v_id vars @ '': ''
                       @ or_else (message_of err) ''Unknown error'',
           color = Some ''red'', loading = None, autoClose = None\<rparr>"]) simp
  have 2: "ConsoleError (''[MUTATION DEBUG] onError for action '' @ v_id vars @ '':'')
     \<in> set (events_since s (bulkUpdateMutation_onError err vars ctx s))"
    unfolding bulk_onError_events by simp
  show ?thesis
    using 1 2 updateProject_onError_events [of s pctx]
    by (simp add: createOutcome_onError_result generateToken_onError_def revokeToken_onError_def
          bulkDeleteMutation_onError_def prim_defs events_since_def includes_or_else)
qed

text \<open>
  The amended C8 at a failed update of \<open>a1\<close>: the toast carries the server's message
  ``boom''.
\<close>

theorem error_handlers_report_witness:
  "NotificationsShow
     \<lparr>n_id = None, title = ''Update Failed'', message = ''Failed to update action a1: boom'',
      color = Some ''red'', loading = None, autoClose = None\<rparr>
     \<in> set (events_since client0
              (bulkUpdateMutation_onError (TRPCClientError ''boom'')
                 \<lparr>v_id = ''a1'', v_dueDate = None\<rparr> None client0))
   \<and> includes_str ''Failed to update action a1: boom'' ''boom''"
  using error_handlers_report
          [of "\<lparr>v_id = ''a1'', v_dueDate = None\<rparr>" client0 "TRPCClientError ''boom''" None]
  by (simp add: bulk_onError_events or_else_def)

section \<open>The bulk reschedule loop\<close>

text \<open>
  Facts about one mutation, one pass of the loop, the loop and the handler: which requests a
  run sends, what it invalidates, and where it sets a timer.
\<close>

lemma requested_simps [simp]:
  "requested [] = []"
  "requested (ActionUpdateRequest v # evs) = v_id v # requested evs"
  "requested (ConsoleLog m # evs) = requested evs"
  "requested (ConsoleError m # evs) = requested evs"
  "requested (NotificationsShow n # evs) = requested evs"
  "requested (NotificationsUpdate n # evs) = requested evs"
  "requested (Cancel q # evs) = requested evs"
  "requested (GetData q # evs) = requested evs"
  "requested (SetData q # evs) = requested evs"
  "requested (Invalidate q # evs) = requested evs"
  "requested (SetTimeout k # evs) = requested evs"
  "requested (xs @ ys) = requested xs @ requested ys"
  by (simp_all add: requested_def List.map_filter_def)

lemma mutateAsync_facts:
  "fst (bulkUpdateMutation_mutateAsync f vars s) = f vars
   \<and> (\<exists>evs. trace (snd (bulkUpdateMutation_mutateAsync f vars s)) = trace s @ evs
          \<and> requested evs = [v_id vars]
          \<and> filter is_invalidate evs = [Invalidate ActionGetAll, Invalidate ActionGetToday]
          \<and> filter (\<lambda>e. is_request e \<or> is_timeout e) evs = [ActionUpdateRequest vars])"
  by (cases "f vars"; cases "actionGetAll (store s)")
     (simp_all add: bulkUpdateMutation_mutateAsync_def bulkUpdateMutation_onMutate_def
        bulkUpdateMutation_onError_def bulkUpdateMutation_onSettled_def prim_defs Let_def)

lemma iteration_facts:
  assumes "reschedule_iteration srv date ids i res s = (brk, res', s')"
  shows "brk = connection_failure (answer srv date ids i)"
    and "map r_success res' = map r_success res @ [is_resolved (answer srv date ids i)]"
    and "\<exists>evs. trace s' = trace s @ evs
          \<and> requested evs = [ids ! i]
          \<and> filter is_invalidate evs = [Invalidate ActionGetAll, Invalidate ActionGetToday]
          \<and> filter (\<lambda>e. is_request e \<or> is_timeout e) evs = schedule srv date ids i"
proof -
  let ?vars = "\<lparr>v_id = ids ! i, v_dueDate = date\<rparr>"
  let ?s1 = "console_log (''[BULK DEBUG] Processing mutation '' @ show_nat (i + 1) @ ''/''
                             @ show_nat (length ids) @ '' for action '' @ ids ! i) s"
  obtain r s2 where m: "bulkUpdateMutation_mutateAsync (srv i) ?vars ?s1 = (r, s2)"
    by (cases "bulkUpdateMutation_mutateAsync (srv i) ?vars ?s1") auto
  from mutateAsync_facts [of "srv i" ?vars ?s1] m
  obtain evs where r: "r = answer srv date ids i"
    and t: "trace s2 = trace ?s1 @ evs" "requested evs = [ids ! i]"
       "filter is_invalidate evs = [Invalidate ActionGetAll, Invalidate ActionGetToday]"
       "filter (\<lambda>e. is_request e \<or> is_timeout e) evs
          = [ActionUpdateRequest \<lparr>v_id = ids ! i, v_dueDate = date\<rparr>]"
    by (auto simp: answer_def)
  show "brk = connection_failure (answer srv date ids i)"
    using assms m r
    by (auto simp: reschedule_iteration_def Let_def connection_failure_def caught_message_def
        split: response.splits if_splits)
  show "map r_success res' = map r_success res @ [is_resolved (answer srv date ids i)]"
    using assms m r
    by (auto simp: reschedule_iteration_def Let_def is_resolved_def
        split: response.splits if_splits)
  show "\<exists>evs. trace s' = trace s @ evs
          \<and> requested evs = [ids ! i]
          \<and> filter is_invalidate evs = [Invalidate ActionGetAll, Invalidate ActionGetToday]
          \<and> filter (\<lambda>e. is_request e \<or> is_timeout e) evs = schedule srv date ids i"
    using assms m r t
    by (auto simp: reschedule_iteration_def Let_def is_resolved_def prim_defs schedule_def
        split: response.splits if_splits)
qed


lemma stop_index_bounds:
  "i \<le> n \<Longrightarrow>
   i \<le> stop_index conn n i \<and> stop_index conn n i \<le> n \<and> (i < n \<longrightarrow> i < stop_index conn n i)"
proof (induction conn n i rule: stop_index.induct)
  case (1 conn n i)
  then show ?case by (subst (1 2 3) stop_index.simps) auto
qed

lemma stop_index_char:
  "i \<le> m \<Longrightarrow> m < n \<Longrightarrow> (m < stop_index conn n i) = (\<forall>j. i \<le> j \<and> j < m \<longrightarrow> \<not> conn j)"
proof (induction conn n i rule: stop_index.induct)
  case (1 conn n i)
  show ?case
  proof (cases "conn i")
    case True
    then have "stop_index conn n i = i + 1" using 1(2,3) by (subst stop_index.simps) simp
    then show ?thesis using True 1(2) by (cases "m = i") auto
  next
    case False
    then have e: "stop_index conn n i = stop_index conn n (i + 1)"
      using 1(2,3) by (subst stop_index.simps) simp
    show ?thesis
    proof (cases "m = i")
      case True
      then show ?thesis using stop_index_bounds [of i n conn] 1(3) by auto
    next
      case neq: False
      then have "i + 1 \<le> m" using 1(2) by simp
      with 1 False have "(m < stop_index conn n (i + 1)) = (\<forall>j. i + 1 \<le> j \<and> j < m \<longrightarrow> \<not> conn j)"
        by simp
      moreover have "(\<forall>j. i + 1 \<le> j \<and> j < m \<longrightarrow> \<not> conn j) = (\<forall>j. i \<le> j \<and> j < m \<longrightarrow> \<not> conn j)"
        (is "?A = ?B")
      proof
        assume a: ?A
        show ?B
        proof (intro allI impI)
          fix j assume j: "i \<le> j \<and> j < m"
          show "\<not> conn j"
          proof (cases "j = i")
            case True
            with \<open>\<not> conn i\<close> show ?thesis by simp
          next
            case False
            with j have "i + 1 \<le> j \<and> j < m" by simp
            with a show ?thesis by blast
          qed
        qed
      next
        assume ?B
        then show ?A by auto
      qed
      ultimately show ?thesis using e by simp
    qed
  qed
qed

lemma loop_facts:
  "i \<le> length ids \<Longrightarrow>
   map r_success (fst (reschedule_loop srv date ids i res s)) =
     map r_success res @ map (\<lambda>j. is_resolved (answer srv date ids j))
        [i..<stop_index (\<lambda>j. connection_failure (answer srv date ids j)) (length ids) i]
   \<and> (\<exists>evs. trace (snd (reschedule_loop srv date ids i res s)) = trace s @ evs
          \<and> requested evs =
              take (stop_index (\<lambda>j. connection_failure (answer srv date ids j)) (length ids) i - i) (drop i ids)
          \<and> filter is_invalidate evs =
              concat (replicate (stop_index (\<lambda>j. connection_failure (answer srv date ids j)) (length ids) i - i)
                        [Invalidate ActionGetAll, Invalidate ActionGetToday])
          \<and> filter (\<lambda>e. is_request e \<or> is_timeout e) evs =
              concat (map (schedule srv date ids)
                 [i..<stop_index (\<lambda>j. connection_failure (answer srv date ids j)) (length ids) i]))"
proof (induction srv date ids i res s rule: reschedule_loop.induct)
  case (1 srv date ids i res s)
  let ?conn = "\<lambda>j. connection_failure (answer srv date ids j)"
  let ?K = "stop_index ?conn (length ids)"
  show ?case
  proof (cases "i < length ids")
    case False
    then show ?thesis
      by (simp add: reschedule_loop.simps [of srv date ids i] stop_index.simps [of ?conn "length ids" i])
  next
    case True
    obtain brk res' s' where it: "reschedule_iteration srv date ids i res s = (brk, res', s')"
      by (cases "reschedule_iteration srv date ids i res s") auto
    note f = iteration_facts [OF it]
    from f(3) obtain evs where evs: "trace s' = trace s @ evs" "requested evs = [ids ! i]"
       "filter is_invalidate evs = [Invalidate ActionGetAll, Invalidate ActionGetToday]"
       "filter (\<lambda>e. is_request e \<or> is_timeout e) evs = schedule srv date ids i"
      by auto
    show ?thesis
    proof (cases brk)
      case True
      then have K: "?K i = i + 1" using f(1) \<open>i < length ids\<close>
        by (subst stop_index.simps) simp
      have l: "reschedule_loop srv date ids i res s = (res', s')"
        using it True \<open>i < length ids\<close> by (simp add: reschedule_loop.simps [of srv date ids i])
      show ?thesis using K l f(2) evs \<open>i < length ids\<close>
        by (simp add: take_Suc_conv_app_nth hd_drop_conv_nth take_Suc)
    next
      case False
      then have K: "?K i = ?K (i + 1)" using f(1) \<open>i < length ids\<close>
        by (subst stop_index.simps) simp
      have l: "reschedule_loop srv date ids i res s = reschedule_loop srv date ids (i + 1) res' s'"
        using it False \<open>i < length ids\<close> by (simp add: reschedule_loop.simps [of srv date ids i])
      have b: "i + 1 \<le> ?K (i + 1)" "?K (i + 1) \<le> length ids"
        using stop_index_bounds [of "i + 1" "length ids" ?conn] \<open>i < length ids\<close> by auto
      from "1.IH" [OF \<open>i < length ids\<close> it [symmetric] refl False] \<open>i < length ids\<close>
      obtain evs' where ih:
        "map r_success (fst (reschedule_loop srv date ids (i + 1) res' s')) =
           map r_success res' @ map (\<lambda>j. is_resolved (answer srv date ids j)) [i + 1..<?K (i + 1)]"
        "trace (snd (reschedule_loop srv date ids (i + 1) res' s')) = trace s' @ evs'"
        "requested evs' = take (?K (i + 1) - (i + 1)) (drop (i + 1) ids)"
        "filter is_invalidate evs' =
           concat (replicate (?K (i + 1) - (i + 1)) [Invalidate ActionGetAll, Invalidate ActionGetToday])"
        "filter (\<lambda>e. is_request e \<or> is_timeout e) evs' =
           concat (map (schedule srv date ids) [i + 1..<?K (i + 1)])"
        by auto
      have d: "?K (i + 1) - i = Suc (?K (i + 1) - (i + 1))" using b by simp
      have r: "[i..<?K (i + 1)] = i # [i + 1..<?K (i + 1)]" using b by (simp add: upt_conv_Cons)
      have t: "take (?K (i + 1) - i) (drop i ids) = ids ! i # take (?K (i + 1) - (i + 1)) (drop (i + 1) ids)"
        using \<open>i < length ids\<close> unfolding d by (simp add: Cons_nth_drop_Suc [symmetric])
      show ?thesis
        unfolding l K using ih evs f(2) d r t
        by simp
    qed
  qed
qed


lemma connection_failure_not_resolved: "connection_failure r \<Longrightarrow> \<not> is_resolved r"
  by (cases r) (simp_all add: connection_failure_def is_resolved_def)

lemma all_issued_resolved_iff:
  assumes "\<And>j. conn j \<Longrightarrow> \<not> ok j"
  shows "(\<forall>j < stop_index conn n 0. ok j) = (\<forall>j < n. ok j)"
proof
  assume a: "\<forall>j < stop_index conn n 0. ok j"
  have "stop_index conn n 0 = n"
  proof (rule ccontr)
    assume "stop_index conn n 0 \<noteq> n"
    with stop_index_bounds [of 0 n conn] have lt: "stop_index conn n 0 < n" by simp
    from stop_index_char [of 0 "stop_index conn n 0" n conn] lt
    obtain j where "j < stop_index conn n 0" "conn j" by auto
    with a assms show False by blast
  qed
  with a show "\<forall>j < n. ok j" by simp
next
  assume "\<forall>j < n. ok j"
  with stop_index_bounds [of 0 n conn] show "\<forall>j < stop_index conn n 0. ok j" by simp
qed

lemma no_failed_iff:
  "(filter (\<lambda>r. \<not> r_success r) rs = []) = (\<forall>b \<in> set (map r_success rs). b)"
  by (induction rs) auto

lemma handler_facts:
  assumes "ids \<noteq> []"
  shows "\<exists>evs. trace (handleOverdueBulkReschedule srv pid tds date ids s) = trace s @ evs
     \<and> requested evs = take (stop_index (\<lambda>j. connection_failure (answer srv date ids j)) (length ids) 0) ids
     \<and> filter is_invalidate evs =
         concat (replicate (stop_index (\<lambda>j. connection_failure (answer srv date ids j)) (length ids) 0)
                   [Invalidate ActionGetAll, Invalidate ActionGetToday])
         @ (if \<forall>j < length ids. is_resolved (answer srv date ids j)
            then [Invalidate ActionGetAll, Invalidate ActionGetToday]
                 @ (case pid of
                      None \<Rightarrow> []
                    | Some p \<Rightarrow> if p \<noteq> [] then [Invalidate (ActionGetProjectActions p)] else [])
            else [])
     \<and> filter (\<lambda>e. is_request e \<or> is_timeout e) evs =
         concat (map (schedule srv date ids)
            [0..<stop_index (\<lambda>j. connection_failure (answer srv date ids j)) (length ids) 0])"
proof -
  let ?conn = "\<lambda>j. connection_failure (answer srv date ids j)"
  let ?K = "stop_index ?conn (length ids) 0"
  define s5 where "s5 =
     console_log (''[BULK DEBUG] Starting SEQUENTIAL mutations to avoid database ''
                                @ ''connection pool exhaustion...'')
      (notifications_show
         \<lparr>n_id = Some ''bulk-reschedule'', title = ''Rescheduling...'',
          message = ''Updating '' @ show_nat (length ids) @ '' action'' @ plural (length ids) @ ''...'',
          color = None, loading = Some True, autoClose = Some Never\<rparr>
         (console_log ''[BULK DEBUG] Current cache state for selected actions:''
            (emit (GetData ActionGetAll)
               (console_log ''[BULK DEBUG] handleOverdueBulkReschedule started:'' s))))"
  obtain results s6 where l: "reschedule_loop srv date ids 0 [] s5 = (results, s6)"
    by (cases "reschedule_loop srv date ids 0 [] s5") auto
  from loop_facts [of 0 ids srv date "[]" s5] l
  obtain evs where r: "map r_success results = map (\<lambda>j. is_resolved (answer srv date ids j)) [0..<?K]"
    and t: "trace s6 = trace s5 @ evs" "requested evs = take ?K ids"
      "filter is_invalidate evs = concat (replicate ?K [Invalidate ActionGetAll, Invalidate ActionGetToday])"
      "filter (\<lambda>e. is_request e \<or> is_timeout e) evs = concat (map (schedule srv date ids) [0..<?K])"
    by auto
  have "(filter (\<lambda>r. \<not> r_success r) results = []) = (\<forall>j < ?K. is_resolved (answer srv date ids j))"
    unfolding no_failed_iff r by auto
  also have "\<dots> = (\<forall>j < length ids. is_resolved (answer srv date ids j))"
    by (rule all_issued_resolved_iff) (rule connection_failure_not_resolved)
  finally have f: "(filter (\<lambda>r. \<not> r_success r) results = [])
     = (\<forall>j < length ids. is_resolved (answer srv date ids j))" .
  have t5: "trace s5 = trace s @
     [ConsoleLog ''[BULK DEBUG] handleOverdueBulkReschedule started:'', GetData ActionGetAll,
      ConsoleLog ''[BULK DEBUG] Current cache state for selected actions:'',
      NotificationsShow
         \<lparr>n_id = Some ''bulk-reschedule'', title = ''Rescheduling...'',
          message = ''Updating '' @ show_nat (length ids) @ '' action'' @ plural (length ids) @ ''...'',
          color = None, loading = Some True, autoClose = Some Never\<rparr>,
      ConsoleLog (''[BULK DEBUG] Starting SEQUENTIAL mutations to avoid database ''
                                @ ''connection pool exhaustion...'')]"
    by (simp add: s5_def prim_defs)
  show ?thesis
  proof (cases "filter (\<lambda>r. \<not> r_success r) results = []")
    case True
    then show ?thesis
      using assms l f t t5 unfolding handleOverdueBulkReschedule_def s5_def [symmetric] Let_def
      by (simp add: prim_defs split: option.splits)
  next
    case False
    then show ?thesis
      using assms l f t t5 unfolding handleOverdueBulkReschedule_def s5_def [symmetric] Let_def
      by (simp add: prim_defs split: option.splits)
  qed
qed

lemma upt_0_2: "[0..<2] = [0, Suc 0]"
  by (simp add: numeral_2_eq_2)

lemmas srv_defs = srv_ok_def srv_fail_first_def srv_lost_def answer_def connection_failure_def
  is_resolved_def is_connection_error_def



section \<open>Facts about outcome creation\<close>

lemma show_nat_42: "show_nat 42 = ''42''"
  by (simp add: show_nat.simps digit_def)


lemma trace_emit [simp]: "trace (emit e s) = trace s @ [e]"
  and store_emit [simp]: "store (emit e s) = store s"
  by (simp_all add: emit_def)

lemma trace_setData [simp]:
  "trace (setData_actionGetAll a s) = trace s"
  "trace (setData_outcomeGetMyOutcomes b s) = trace s"
  "trace (setData_projectGetActiveWithDetails c s) = trace s"
  "trace (setData_projectGetAll c s) = trace s"
  by (simp_all add: setData_actionGetAll_def setData_outcomeGetMyOutcomes_def
      setData_projectGetActiveWithDetails_def setData_projectGetAll_def split: option.splits)

lemma createOutcome_onMutate_events:
  "trace (snd (createOutcomeMutation_onMutate pr now vars s)) = trace s @
     [SetData OutcomeGetMyOutcomes, SetData ProjectGetActiveWithDetails, SetData ProjectGetAll,
      OnSearchChange []]"
  by (simp add: createOutcomeMutation_onMutate_def Let_def)









lemma createOutcome_onMutate_ctx:
  "fst (createOutcomeMutation_onMutate pr now vars s) =
     \<lparr>tempId = ''temp-'' @ show_nat now, currentOutcomeIds = map o_id (currentOutcomes pr),
      tempOutcome =
        \<lparr>o_id = ''temp-'' @ show_nat now, o_description = c_description vars, o_type = ''weekly'',
         o_dueDate = None, o_completedDate = None, o_status = ''ACTIVE'',
         o_createdById = [], o_createdAt = int now, o_updatedAt = int now,
         o_goals = [], o_projects = []\<rparr>\<rparr>"
  by (simp add: createOutcomeMutation_onMutate_def Let_def)

lemma createOutcome_onMutate_outcomes:
  "outcomeGetMyOutcomes (store (snd (createOutcomeMutation_onMutate pr now vars s)))
     = Some (outcomes_of (outcomeGetMyOutcomes (store s))
             @ [tempOutcome (fst (createOutcomeMutation_onMutate pr now vars s))])"
  by (cases "projectGetActiveWithDetails (store s)"; cases "projectGetAll (store s)";
      cases "outcomeGetMyOutcomes (store s)")
     (simp_all add: createOutcomeMutation_onMutate_def prim_defs Let_def map_projects_def
        outcomes_of_def)

lemma createOutcome_onMutate_active:
  "projectGetActiveWithDetails (store (snd (createOutcomeMutation_onMutate pr now vars s)))
     = map_projects (projectId pr)
         (map (slim (projectId pr))
            (currentOutcomes pr @ [tempOutcome (fst (createOutcomeMutation_onMutate pr now vars s))]))
         (projectGetActiveWithDetails (store s))"
  by (cases "projectGetActiveWithDetails (store s)"; cases "projectGetAll (store s)";
      cases "outcomeGetMyOutcomes (store s)")
     (simp_all add: createOutcomeMutation_onMutate_def prim_defs Let_def map_projects_def)

lemma createOutcome_onMutate_all:
  "projectGetAll (store (snd (createOutcomeMutation_onMutate pr now vars s)))
     = map_projects (projectId pr)
         (map (slim (projectId pr))
            (currentOutcomes pr @ [tempOutcome (fst (createOutcomeMutation_onMutate pr now vars s))]))
         (projectGetAll (store s))"
  by (cases "projectGetActiveWithDetails (store s)"; cases "projectGetAll (store s)";
      cases "outcomeGetMyOutcomes (store s)")
     (simp_all add: createOutcomeMutation_onMutate_def prim_defs Let_def map_projects_def)

lemma map_projects_None: "(map_projects pid os c = None) = (c = None)"
  by (cases c) (simp_all add: map_projects_def)


lemma with_outcomes_id [simp]: "p_id (with_outcomes pid os q) = p_id q"
  by (simp add: with_outcomes_def)

lemma map_projects_ids: "map p_id (projects_of (map_projects pid os c)) = map p_id (projects_of c)"
  by (cases c) (simp_all add: map_projects_def projects_of_def)

lemma map_projects_outcomes:
  assumes "p \<in> set (projects_of (map_projects pid os c))" and "p_id p = pid"
  shows "p_outcomes p = os"
proof (cases c)
  case None
  with assms show ?thesis by (simp add: map_projects_def projects_of_def)
next
  case (Some ps)
  with assms(1) obtain q where q: "q \<in> set ps" "p = with_outcomes pid os q"
    by (auto simp: map_projects_def projects_of_def)
  with assms(2) have "p_id q = pid" by simp
  with q(2) show ?thesis by (simp add: with_outcomes_def)
qed




lemma onMutate_sample_ctx:
  "fst (createOutcomeMutation_onMutate props1 42 vars_paint s) =
     \<lparr>tempId = ''temp-42'', currentOutcomeIds = [''o1''], tempOutcome = tmp42\<rparr>"
  by (simp add: createOutcome_onMutate_ctx show_nat_42 vars_paint_def props1_def out1_def tmp42_def)

lemma onMutate_sample_all:
  "projectGetAll (store (snd (createOutcomeMutation_onMutate props1 42 vars_paint client2)))
     = Some [proj2, proj1_tmp]"
  unfolding createOutcome_onMutate_all onMutate_sample_ctx
  by (simp add: client2_def client1_def map_projects_def with_outcomes_def proj1_tmp_def
        props1_def proj1_def proj2_def)




section \<open>Invalidation\<close>




section \<open>Outcome creation: the provisional record\<close>

text \<open>
  C4, as the claim states it, fails. When the list of all projects has not been fetched,
  \<open>onMutate\<close> writes nothing into it: the cache entry holds no data before and after.
\<close>

theorem createOutcome_onMutate_skips_empty_project_list:
  "projectGetAll (store (snd (createOutcomeMutation_onMutate props1 42 vars_paint client1))) = None"
  by (simp add: createOutcomeMutation_onMutate_def prim_defs Let_def sample_defs map_projects_def)

text \<open>
  C4, amended. Before the request of an outcome creation is sent, \<open>onMutate\<close> builds a
  provisional outcome whose identifier is \<open>temp-\<close> followed by the clock reading and
  appends it to the cached outcome list of the user (creating the list when the query
  holds no data). Each of the two project-list caches that holds data keeps its projects,
  and every project in it with the component's project id gets the current outcomes
  followed by the provisional one; a project-list cache that holds no data is left
  without data.
\<close>

theorem createOutcome_onMutate_writes:
  "tempId (fst (createOutcomeMutation_onMutate pr now vars s)) = ''temp-'' @ show_nat now
   \<and> o_id (tempOutcome (fst (createOutcomeMutation_onMutate pr now vars s))) = ''temp-'' @ show_nat now
   \<and> o_description (tempOutcome (fst (createOutcomeMutation_onMutate pr now vars s))) = c_description vars
   \<and> outcomeGetMyOutcomes (store (snd (createOutcomeMutation_onMutate pr now vars s)))
     = Some (outcomes_of (outcomeGetMyOutcomes (store s))
             @ [tempOutcome (fst (createOutcomeMutation_onMutate pr now vars s))])
   \<and> (projectGetActiveWithDetails (store (snd (createOutcomeMutation_onMutate pr now vars s))) = None)
     = (projectGetActiveWithDetails (store s) = None)
   \<and> (projectGetAll (store (snd (createOutcomeMutation_onMutate pr now vars s))) = None)
     = (projectGetAll (store s) = None)
   \<and> map p_id (projects_of (projectGetActiveWithDetails (store (snd (createOutcomeMutation_onMutate pr now vars s)))))
     = map p_id (projects_of (projectGetActiveWithDetails (store s)))
   \<and> map p_id (projects_of (projectGetAll (store (snd (createOutcomeMutation_onMutate pr now vars s)))))
     = map p_id (projects_of (projectGetAll (store s)))
   \<and> (\<forall>p \<in> set (projects_of (projectGetActiveWithDetails (store (snd (createOutcomeMutation_onMutate pr now vars s))))
              @ projects_of (projectGetAll (store (snd (createOutcomeMutation_onMutate pr now vars s))))).
         p_id p = projectId pr \<longrightarrow>
         p_outcomes p = map (slim (projectId pr))
                          (currentOutcomes pr @ [tempOutcome (fst (createOutcomeMutation_onMutate pr now vars s))])
         \<and> ''temp-'' @ show_nat now \<in> set (outcome_ids p))
   \<and> filter is_request (events_since s (snd (createOutcomeMutation_onMutate pr now vars s))) = []"
proof -
  let ?r = "createOutcomeMutation_onMutate pr now vars s"
  let ?os = "map (slim (projectId pr)) (currentOutcomes pr @ [tempOutcome (fst ?r)])"
  have t: "o_id (tempOutcome (fst ?r)) = ''temp-'' @ show_nat now"
    by (simp add: createOutcome_onMutate_ctx)
  have o: "p_outcomes p = ?os \<and> ''temp-'' @ show_nat now \<in> set (outcome_ids p)"
    if "p \<in> set (projects_of (projectGetActiveWithDetails (store (snd ?r)))
                @ projects_of (projectGetAll (store (snd ?r))))"
      and "p_id p = projectId pr" for p
  proof -
    have "p_outcomes p = ?os"
      using that map_projects_outcomes [of p "projectId pr" ?os]
      unfolding createOutcome_onMutate_active createOutcome_onMutate_all by auto
    then show ?thesis using t by (simp add: outcome_ids_def slim_def)
  qed
  have e: "filter is_request (events_since s (snd ?r)) = []"
    by (simp add: createOutcome_onMutate_events events_since_def)
  show ?thesis
    using o e
    by (simp add: createOutcome_onMutate_ctx createOutcome_onMutate_outcomes
          createOutcome_onMutate_active createOutcome_onMutate_all map_projects_None
          map_projects_ids del: set_append)
qed

text \<open>
  The amended C4 with both project lists fetched: project \<open>p1\<close> in the list of all
  projects now lists the provisional outcome \<open>temp-42\<close>.
\<close>

theorem createOutcome_onMutate_writes_witness:
  "proj1_tmp \<in> set (projects_of (projectGetAll
      (store (snd (createOutcomeMutation_onMutate props1 42 vars_paint client2)))))
   \<and> p_id proj1_tmp = projectId props1
   \<and> ''temp-42'' \<in> set (outcome_ids proj1_tmp)"
proof -
  let ?r = "createOutcomeMutation_onMutate props1 42 vars_paint client2"
  have m: "proj1_tmp \<in> set (projects_of (projectGetActiveWithDetails (store (snd ?r)))
                             @ projects_of (projectGetAll (store (snd ?r))))"
    by (simp add: onMutate_sample_all projects_of_def)
  have i: "p_id proj1_tmp = projectId props1"
    by (simp add: proj1_tmp_def proj1_def props1_def)
  from createOutcome_onMutate_writes [of props1 42 vars_paint client2]
  have "\<forall>p \<in> set (projects_of (projectGetActiveWithDetails (store (snd ?r)))
                   @ projects_of (projectGetAll (store (snd ?r)))).
          p_id p = projectId props1 \<longrightarrow>
          p_outcomes p = map (slim (projectId props1)) (currentOutcomes props1 @ [tempOutcome (fst ?r)])
          \<and> ''temp-'' @ show_nat 42 \<in> set (outcome_ids p)"
    by (elim conjE)
  with m i have "''temp-'' @ show_nat 42 \<in> set (outcome_ids proj1_tmp)" by blast
  then show ?thesis using m i by (simp add: show_nat_42 onMutate_sample_all projects_of_def)
qed

section \<open>Outcome creation: success\<close>








section \<open>Bulk rescheduling: order, delay and abort\<close>

text \<open>
  C5 at a run the code can perform: two actions, the first update rejected by the server
  for a reason other than a lost connection. The second request follows the first with
  no timer in between.
\<close>

theorem no_delay_after_failed_update:
  "filter is_request_or_timer
     (events_since client1
        (handleOverdueBulkReschedule srv_fail_first None toDateString0 (Some 9) [''a1'', ''a2''] client1))
   = [ActionUpdateRequest \<lparr>v_id = ''a1'', v_dueDate = Some 9\<rparr>,
      ActionUpdateRequest \<lparr>v_id = ''a2'', v_dueDate = Some 9\<rparr>]"
proof -
  let ?ids = "[''a1'', ''a2'']"
  have paced: "is_request_or_timer = (\<lambda>e. is_request e \<or> is_timeout e)"
    by (rule ext) (simp add: is_request_or_timer_def)
  have k: "stop_index (\<lambda>j. connection_failure (answer srv_fail_first (Some 9) ?ids j)) (length ?ids) 0 = 2"
    by (simp add: stop_index.simps srv_defs)
  from handler_facts [of ?ids srv_fail_first None toDateString0 "Some 9" client1]
  obtain evs where
    "trace (handleOverdueBulkReschedule srv_fail_first None toDateString0 (Some 9) ?ids client1)
       = trace client1 @ evs"
    "filter (\<lambda>e. is_request e \<or> is_timeout e) evs
       = concat (map (schedule srv_fail_first (Some 9) ?ids) [0..<2])"
    unfolding k by blast
  then show ?thesis
    unfolding paced
    by (simp add: events_since_def schedule_def srv_defs upt_0_2)
qed

text \<open>The same run with a server that accepts both updates sets the timer between them.\<close>

lemma delay_after_successful_update:
  "filter is_request_or_timer
     (events_since client1
        (handleOverdueBulkReschedule srv_ok None toDateString0 (Some 9) [''a1'', ''a2''] client1))
   = [ActionUpdateRequest \<lparr>v_id = ''a1'', v_dueDate = Some 9\<rparr>, SetTimeout 100,
      ActionUpdateRequest \<lparr>v_id = ''a2'', v_dueDate = Some 9\<rparr>]"
proof -
  let ?ids = "[''a1'', ''a2'']"
  have paced: "is_request_or_timer = (\<lambda>e. is_request e \<or> is_timeout e)"
    by (rule ext) (simp add: is_request_or_timer_def)
  have k: "stop_index (\<lambda>j. connection_failure (answer srv_ok (Some 9) ?ids j)) (length ?ids) 0 = 2"
    by (simp add: stop_index.simps srv_defs)
  from handler_facts [of ?ids srv_ok None toDateString0 "Some 9" client1]
  obtain evs where
    "trace (handleOverdueBulkReschedule srv_ok None toDateString0 (Some 9) ?ids client1)
       = trace client1 @ evs"
    "filter (\<lambda>e. is_request e \<or> is_timeout e) evs
       = concat (map (schedule srv_ok (Some 9) ?ids) [0..<2])"
    unfolding k by blast
  then show ?thesis
    unfolding paced
    by (simp add: events_since_def schedule_def srv_defs upt_0_2)
qed

text \<open>
  C6. The bulk reschedule handler sends the update requests for an initial segment of the
  action identifiers, in order. The first request is always sent; the request after the
  one at index \<open>i\<close> is sent if and only if that one was sent and its answer is not a failure
  whose message contains ``Server has closed the connection'' or ``Connection reset by
  peer''. So the loop stops early exactly at a connection failure and goes on after
  every other answer.
\<close>

theorem reschedule_aborts_iff_connection_error:
  "\<exists>k \<le> length ids.
     requested (events_since s (handleOverdueBulkReschedule srv pid tds date ids s)) = take k ids
     \<and> (ids \<noteq> [] \<longrightarrow> 0 < k)
     \<and> (\<forall>i. i + 1 < length ids \<longrightarrow>
           (i + 1 < k) = (i < k \<and> \<not> connection_failure (answer srv date ids i)))"
proof (cases "ids = []")
  case True
  then show ?thesis
    by (simp add: handleOverdueBulkReschedule_def prim_defs events_since_def)
next
  case False
  let ?conn = "\<lambda>j. connection_failure (answer srv date ids j)"
  let ?K = "stop_index ?conn (length ids) 0"
  from handler_facts [OF False, of srv pid tds date s]
  have r: "requested (events_since s (handleOverdueBulkReschedule srv pid tds date ids s)) = take ?K ids"
    by (auto simp: events_since_def)
  have b: "?K \<le> length ids" "0 < ?K"
    using stop_index_bounds [of 0 "length ids" ?conn] False by auto
  have c: "(i + 1 < ?K) = (i < ?K \<and> \<not> ?conn i)" if "i + 1 < length ids" for i
  proof -
    have "(i + 1 < ?K) = (\<forall>j. 0 \<le> j \<and> j < i + 1 \<longrightarrow> \<not> ?conn j)"
      using that by (intro stop_index_char) simp_all
    also have "\<dots> = ((\<forall>j. 0 \<le> j \<and> j < i \<longrightarrow> \<not> ?conn j) \<and> \<not> ?conn i)"
      by (auto simp: less_Suc_eq)
    also have "(\<forall>j. 0 \<le> j \<and> j < i \<longrightarrow> \<not> ?conn j) = (i < ?K)"
      using that by (intro stop_index_char [symmetric]) simp_all
    finally show ?thesis .
  qed
  show ?thesis
    using r b c by (intro exI [of _ ?K]) simp
qed

text \<open>
  C6 at three actions: the first update fails with ``boom'' and the loop goes on, the
  second loses the connection and the third request is never sent.
\<close>

theorem reschedule_aborts_iff_connection_error_witness:
  "connection_failure (answer srv_lost (Some 9) [''a1'', ''a2'', ''a3''] 1)
   \<and> \<not> connection_failure (answer srv_lost (Some 9) [''a1'', ''a2'', ''a3''] 0)
   \<and> requested (events_since client1
        (handleOverdueBulkReschedule srv_lost None toDateString0 (Some 9) [''a1'', ''a2'', ''a3''] client1))
     = [''a1'', ''a2'']"
proof -
  let ?ids = "[''a1'', ''a2'', ''a3'']"
  have c1: "connection_failure (answer srv_lost (Some 9) ?ids 1)"
    by (simp add: connection_failure_def answer_def srv_lost_def is_connection_error_def)
  have c0: "\<not> connection_failure (answer srv_lost (Some 9) ?ids 0)"
    by (simp add: connection_failure_def answer_def srv_lost_def is_connection_error_def)
  from reschedule_aborts_iff_connection_error [of ?ids client1 srv_lost None toDateString0 "Some 9"]
  obtain k where k: "k \<le> length ?ids"
    "requested (events_since client1
        (handleOverdueBulkReschedule srv_lost None toDateString0 (Some 9) ?ids client1)) = take k ?ids"
    "?ids \<noteq> [] \<longrightarrow> 0 < k"
    "\<forall>i. i + 1 < length ?ids \<longrightarrow>
       (i + 1 < k) = (i < k \<and> \<not> connection_failure (answer srv_lost (Some 9) ?ids i))"
    by blast
  from k(3) have "0 < k" by simp
  with k(4) [rule_format, of 0] c0 have "1 < k" by simp
  moreover from k(4) [rule_format, of 1] c1 have "\<not> 2 < k" by simp
  ultimately have "k = 2" by simp
  with k(2) c0 c1 show ?thesis by (simp add: numeral_2_eq_2)
qed

end
